theory Spec2Isabelle
  imports Main "HOL-Library.Word"
begin

unbundle bit_operations_syntax

section \<open>Types and constants of fish.h and fishnode.h\<close>

text \<open>
  \<^verbatim>\<open>typedef uint32_t fnaddr_t;\<close> Time stamps are \<^verbatim>\<open>time_t\<close>, a signed count of
  seconds; \<^verbatim>\<open>int\<close> arguments are 32-bit and wrap around.
\<close>

type_synonym fnaddr_t = "32 word"
type_synonym time_t = int
type_synonym c_int = "32 word"

text \<open>\<^verbatim>\<open>#define ALL_NEIGHBORS htonl(0xFFFFFFFF)\<close>: all bits set in either byte order.\<close>

definition ALL_NEIGHBORS :: fnaddr_t where
  "ALL_NEIGHBORS = 0xFFFFFFFF"

definition MAX_TTL :: "8 word" where
  "MAX_TTL = 64"

definition ENTRY_TTL_SECONDS :: time_t where
  "ENTRY_TTL_SECONDS = 120"

definition HASH_TABLE_SIZE :: "32 word" where
  "HASH_TABLE_SIZE = 1024"

subsection \<open>The layout of struct L3_hdr\<close>

text \<open>
  The struct is declared \<^verbatim>\<open>__attribute__((packed))\<close>: its members follow each other
  without padding, in declaration order, each with the size of its type.
\<close>

datatype ctype = Uint8 | Uint32

fun sizeof_ctype :: "ctype \<Rightarrow> nat" where
  "sizeof_ctype Uint8 = 1"
| "sizeof_ctype Uint32 = 4"

definition L3_hdr_members :: "(string \<times> ctype) list" where
  "L3_hdr_members =
     [(''ttl'', Uint8), (''protocol'', Uint8), (''packet_id'', Uint32),
      (''src'', Uint32), (''dst'', Uint32)]"

fun sizeof_packed :: "(string \<times> ctype) list \<Rightarrow> nat" where
  "sizeof_packed [] = 0"
| "sizeof_packed ((n, t) # ms) = sizeof_ctype t + sizeof_packed ms"

fun offsetof_packed :: "(string \<times> ctype) list \<Rightarrow> string \<Rightarrow> nat option" where
  "offsetof_packed [] m = None"
| "offsetof_packed ((n, t) # ms) m =
     (if n = m then Some 0 else map_option (\<lambda>k. sizeof_ctype t + k) (offsetof_packed ms m))"

definition sizeof_L3_hdr :: nat where
  "sizeof_L3_hdr = sizeof_packed L3_hdr_members"

subsection \<open>Frames, cache entries, the environment\<close>

text \<open>
  One entry of a collision chain. The \<^verbatim>\<open>next\<close> pointer is the tail of the list that
  models the chain.
\<close>

record HashEntry =
  src :: fnaddr_t
  packet_id :: "16 word"
  timestamp :: time_t

text \<open>
  The buffer behind \<^verbatim>\<open>void *l3frame\<close>: the members of struct L3_hdr as the code reads
  them through the cast pointer, and the bytes that follow the header (what
  \<^verbatim>\<open>(uint8_t *)l3frame + sizeof(struct L3_hdr)\<close> points to). The length of the frame
  is not part of the buffer: it is the separate argument \<^verbatim>\<open>len\<close>.
\<close>

record L3_frame =
  ttl :: "8 word"
  protocol :: "8 word"
  packet_id :: "32 word"
  src :: fnaddr_t
  dst :: fnaddr_t
  payload :: "8 word list"

text \<open>
  What the code asks of libfish: \<^verbatim>\<open>fish_getaddress()\<close> and
  \<^verbatim>\<open>fish_fwd.longest_prefix_match\<close> (main leaves the built-in lookup installed),
  which returns 0 when no entry matches.
\<close>

record env =
  node_addr :: fnaddr_t
  longest_prefix_match :: "fnaddr_t \<Rightarrow> fnaddr_t"

text \<open>
  The calls into the other layers, in the order they are made:
  \<^verbatim>\<open>fish_l4.fish_l4_receive(l4frame, l4len, proto, src)\<close>,
  \<^verbatim>\<open>fish_l2.fish_l2_send(l3frame, next_hop, len, l2_proto)\<close> and
  \<^verbatim>\<open>fish_fcmp.send_fcmp_response(l3frame, len, err)\<close>, each with the contents of the
  buffer at the time of the call.
\<close>

datatype event =
  L4_receive "8 word list" c_int "8 word" fnaddr_t
| L2_send L3_frame fnaddr_t c_int "8 word"
| Fcmp_response L3_frame c_int "32 word"

section \<open>The duplicate-suppression hash table\<close>

text \<open>
  \<^verbatim>\<open>HashEntry* hash_table[HASH_TABLE_SIZE]\<close>: a chain for every index. A global array
  starts with every pointer NULL.
\<close>

type_synonym hash_table = "nat \<Rightarrow> HashEntry list"

definition hash_table_init :: hash_table where
  "hash_table_init = (\<lambda>i. [])"

definition hash_function :: "fnaddr_t \<Rightarrow> 32 word \<Rightarrow> nat" where
  "hash_function s pid = unat ((s XOR pid) mod HASH_TABLE_SIZE)"

text \<open>
  The while loop of insert_entry: \<open>Some\<close> of the chain with the first matching entry
  replaced where it stood, \<open>None\<close> when the loop runs off the end of the chain.
\<close>

fun insert_entry_loop :: "HashEntry \<Rightarrow> HashEntry list \<Rightarrow> HashEntry list option" where
  "insert_entry_loop new_entry [] = None"
| "insert_entry_loop new_entry (current # rest) =
     (if HashEntry.src current = HashEntry.src new_entry
         \<and> HashEntry.packet_id current = HashEntry.packet_id new_entry
      then Some (new_entry # rest)
      else map_option (\<lambda>r. current # r) (insert_entry_loop new_entry rest))"

text \<open>
  The parameter \<^verbatim>\<open>uint16_t packet_id\<close> is widened again for hash_function;
  \<open>now\<close> is what \<^verbatim>\<open>time(NULL)\<close> returns.
\<close>

definition insert_entry :: "hash_table \<Rightarrow> time_t \<Rightarrow> fnaddr_t \<Rightarrow> 16 word \<Rightarrow> hash_table" where
  "insert_entry tbl now s pid =
     (let index = hash_function s (ucast pid);
          new_entry = \<lparr>HashEntry.src = s, HashEntry.packet_id = pid, timestamp = now\<rparr>
      in if tbl index = [] then tbl(index := [new_entry])
         else (case insert_entry_loop new_entry (tbl index) of
                 Some chain \<Rightarrow> tbl(index := chain)
               | None \<Rightarrow> tbl(index := new_entry # tbl index)))"

fun get_timestamp_loop :: "time_t \<Rightarrow> fnaddr_t \<Rightarrow> 16 word \<Rightarrow> HashEntry list \<Rightarrow> time_t" where
  "get_timestamp_loop now s pid [] = -1"
| "get_timestamp_loop now s pid (current # rest) =
     (if HashEntry.src current = s \<and> HashEntry.packet_id current = pid
      then (if now - timestamp current > ENTRY_TTL_SECONDS then -1 else timestamp current)
      else get_timestamp_loop now s pid rest)"

definition get_timestamp :: "hash_table \<Rightarrow> time_t \<Rightarrow> fnaddr_t \<Rightarrow> 16 word \<Rightarrow> time_t" where
  "get_timestamp tbl now s pid = get_timestamp_loop now s pid (tbl (hash_function s (ucast pid)))"

section \<open>Forwarding, receiving and sending\<close>

definition my_fish_l3_forward :: "env \<Rightarrow> L3_frame \<Rightarrow> c_int \<Rightarrow> event list" where
  "my_fish_l3_forward e l3frame len =
     (let dest_addr = dst l3frame;
          my_addr = node_addr e
      in if ttl l3frame = 0 \<and> dest_addr \<noteq> my_addr then [Fcmp_response l3frame len 1]
         else
           (let next_hop = longest_prefix_match e dest_addr;
                next_hop = (if dest_addr = ALL_NEIGHBORS then ALL_NEIGHBORS else next_hop);
                next_hop = (if dest_addr = my_addr then my_addr else next_hop)
            in if next_hop = 0 then [Fcmp_response l3frame len 2]
               else [L2_send l3frame next_hop len 1]))"

text \<open>
  The receive callback returns the hash table, the buffer and the calls it made. The two
  clock readings are those of get_timestamp and of insert_entry; the 32-bit
  \<^verbatim>\<open>header->packet_id\<close> is converted to the \<^verbatim>\<open>uint16_t\<close> parameter of both.
  \<^verbatim>\<open>len - sizeof(struct L3_hdr)\<close> is stored in an \<^verbatim>\<open>int\<close>: the difference modulo
  \<open>2 ^ 32\<close>. The argument \<^verbatim>\<open>protocol\<close> is not used.
\<close>

definition my_fishnode_l3_receive ::
  "env \<Rightarrow> hash_table \<Rightarrow> time_t \<Rightarrow> time_t \<Rightarrow> L3_frame \<Rightarrow> c_int \<Rightarrow> 8 word
     \<Rightarrow> hash_table \<times> L3_frame \<times> event list" where
  "my_fishnode_l3_receive e tbl t_lookup t_insert l3frame len proto =
     (let dest_addr = dst l3frame;
          my_addr = node_addr e;
          l4len = len - of_nat sizeof_L3_hdr
      in if dest_addr = my_addr
         then (tbl, l3frame, [L4_receive (payload l3frame) l4len (protocol l3frame) (src l3frame)])
         else if dest_addr = ALL_NEIGHBORS
         then
           (let timestamp = get_timestamp tbl t_lookup (src l3frame) (ucast (packet_id l3frame))
            in if timestamp \<noteq> -1
               then
                 (let tbl' = insert_entry tbl t_insert (src l3frame) (ucast (packet_id l3frame))
                  in if ttl l3frame > 1
                     then
                       (let l3frame' = l3frame\<lparr>ttl := ttl l3frame - 1\<rparr>
                        in (tbl', l3frame',
                            L4_receive (payload l3frame') l4len (protocol l3frame') (src l3frame')
                              # my_fish_l3_forward e l3frame' len))
                     else (tbl', l3frame, []))
               else (tbl, l3frame, []))
         else if ttl l3frame > 1
         then
           (let l3frame' = l3frame\<lparr>ttl := ttl l3frame - 1\<rparr>
            in (tbl, l3frame', my_fish_l3_forward e l3frame' len))
         else (tbl, l3frame, []))"

text \<open>
  my_fish_l3_send fills in dst, src, protocol and ttl of a freshly allocated header and
  leaves packet_id as malloc returned it: that value is the argument \<open>uninit_id\<close>.
\<close>

definition my_fish_l3_send ::
  "env \<Rightarrow> 32 word \<Rightarrow> 8 word list \<Rightarrow> c_int \<Rightarrow> fnaddr_t \<Rightarrow> 8 word \<Rightarrow> 8 word \<Rightarrow> event list" where
  "my_fish_l3_send e uninit_id l4frame len dst_addr proto ttl0 =
     (let ttl1 = (if ttl0 = 0 \<or> ttl0 > MAX_TTL then MAX_TTL else ttl0);
          l3_header_len = of_nat sizeof_L3_hdr;
          l3frame = \<lparr>ttl = ttl1, protocol = proto, packet_id = uninit_id,
                     src = node_addr e, dst = dst_addr, payload = l4frame\<rparr>
      in my_fish_l3_forward e l3frame (l3_header_len + len))"

text \<open>
  A run of the node: the receive callback applied to the frames of a list, one after the
  other, from a given hash table. Every call has its own clock readings and its own
  environment, since the forwarding table changes between calls.
\<close>

record rx =
  rx_env :: env
  rx_t_lookup :: time_t
  rx_t_insert :: time_t
  rx_frame :: L3_frame
  rx_len :: c_int
  rx_protocol :: "8 word"

fun receive_all :: "hash_table \<Rightarrow> rx list \<Rightarrow> hash_table" where
  "receive_all tbl [] = tbl"
| "receive_all tbl (r # rs) =
     receive_all
       (fst (my_fishnode_l3_receive (rx_env r) tbl (rx_t_lookup r) (rx_t_insert r) (rx_frame r)
               (rx_len r) (rx_protocol r)))
       rs"

text \<open>
  A call with its length argument set aside: two lists of calls that agree under
  \<open>map without_len\<close> are the same calls, in the same order, on the same buffer
  contents, with the same addresses, protocols and error codes.
\<close>

fun without_len :: "event \<Rightarrow> event" where
  "without_len (L4_receive p l pr s) = L4_receive p 0 pr s"
| "without_len (L2_send f n l pr) = L2_send f n 0 pr"
| "without_len (Fcmp_response f l err) = Fcmp_response f 0 err"

section \<open>Lemmas on the hash table\<close>

lemma sizeof_L3_hdr_eq: "sizeof_L3_hdr = 14"
  by (simp add: sizeof_L3_hdr_def L3_hdr_members_def)

lemma get_timestamp_init: "get_timestamp hash_table_init now s pid = -1"
  by (simp add: get_timestamp_def hash_table_init_def)

lemma insert_entry_loop_hit:
  "insert_entry_loop new_entry chain = Some chain' \<Longrightarrow>
   get_timestamp_loop now (HashEntry.src new_entry) (HashEntry.packet_id new_entry) chain' =
     (if now - timestamp new_entry > ENTRY_TTL_SECONDS then -1 else timestamp new_entry)"
proof (induction chain arbitrary: chain')
  case Nil
  then show ?case by simp
next
  case (Cons current rest)
  show ?case
  proof (cases "HashEntry.src current = HashEntry.src new_entry
                 \<and> HashEntry.packet_id current = HashEntry.packet_id new_entry")
    case True
    with Cons.prems have "chain' = new_entry # rest" by simp
    then show ?thesis by simp
  next
    case False
    with Cons.prems obtain r where r: "insert_entry_loop new_entry rest = Some r"
      and c: "chain' = current # r" by auto
    from Cons.IH [OF r] False c show ?thesis by auto
  qed
qed

lemma get_timestamp_insert_entry:
  "get_timestamp (insert_entry tbl t s pid) now s pid =
     (if now - t > ENTRY_TTL_SECONDS then -1 else t)"
proof (cases "insert_entry_loop \<lparr>HashEntry.src = s, HashEntry.packet_id = pid, timestamp = t\<rparr>
                (tbl (hash_function s (ucast pid)))")
  case None
  then show ?thesis
    by (simp add: get_timestamp_def insert_entry_def Let_def)
next
  case (Some chain)
  from insert_entry_loop_hit [OF Some, of now] Some show ?thesis
    by (auto simp add: get_timestamp_def insert_entry_def Let_def)
qed

lemma ucast_low16:
  assumes "unat (p1 :: 32 word) mod 2 ^ 16 = unat p2 mod 2 ^ 16"
  shows "(ucast p1 :: 16 word) = ucast p2"
proof -
  have "unat (ucast p1 :: 16 word) = unat (ucast p2 :: 16 word)"
    using assms by (simp add: unsigned_ucast_eq take_bit_eq_mod)
  then show ?thesis by (simp only: word_unat_eq_iff)
qed

text \<open>
  Whether the loop of insert_entry finds an entry depends on the key of the new entry
  only, and the entry it has put in place is the one it finds the next time.
\<close>

lemma insert_entry_loop_None_key:
  "HashEntry.src a = HashEntry.src b \<Longrightarrow> HashEntry.packet_id a = HashEntry.packet_id b \<Longrightarrow>
   insert_entry_loop a chain = None \<Longrightarrow> insert_entry_loop b chain = None"
  by (induction chain) (auto split: if_splits)

lemma insert_entry_loop_again:
  "HashEntry.src a = HashEntry.src b \<Longrightarrow> HashEntry.packet_id a = HashEntry.packet_id b \<Longrightarrow>
   insert_entry_loop a chain = Some chain' \<Longrightarrow>
   insert_entry_loop b chain' = insert_entry_loop b chain"
  by (induction chain arbitrary: chain') (auto split: if_splits)

lemma insert_entry_loop_Some_not_Nil:
  "insert_entry_loop a chain = Some chain' \<Longrightarrow> chain' \<noteq> []"
  by (induction chain arbitrary: chain') (auto split: if_splits)

lemma insert_entry_twice:
  "insert_entry (insert_entry tbl t s pid) t' s pid = insert_entry tbl t' s pid"
proof (cases "insert_entry_loop \<lparr>HashEntry.src = s, HashEntry.packet_id = pid, timestamp = t\<rparr>
                (tbl (hash_function s (ucast pid)))")
  case None
  from insert_entry_loop_None_key [OF _ _ None,
      of "\<lparr>HashEntry.src = s, HashEntry.packet_id = pid, timestamp = t'\<rparr>"]
  have "insert_entry_loop \<lparr>HashEntry.src = s, HashEntry.packet_id = pid, timestamp = t'\<rparr>
          (tbl (hash_function s (ucast pid))) = None" by simp
  with None show ?thesis
    by (simp add: insert_entry_def Let_def)
next
  case (Some chain)
  from insert_entry_loop_again [OF _ _ Some,
      of "\<lparr>HashEntry.src = s, HashEntry.packet_id = pid, timestamp = t'\<rparr>"]
  have again:
    "insert_entry_loop \<lparr>HashEntry.src = s, HashEntry.packet_id = pid, timestamp = t'\<rparr> chain =
     insert_entry_loop \<lparr>HashEntry.src = s, HashEntry.packet_id = pid, timestamp = t'\<rparr>
          (tbl (hash_function s (ucast pid)))" by simp
  from Some have ne: "tbl (hash_function s (ucast pid)) \<noteq> []" by auto
  from insert_entry_loop_Some_not_Nil [OF Some] have ne': "chain \<noteq> []" .
  have "insert_entry_loop \<lparr>HashEntry.src = s, HashEntry.packet_id = pid, timestamp = t'\<rparr>
          (tbl (hash_function s (ucast pid))) \<noteq> None"
  proof
    assume n: "insert_entry_loop \<lparr>HashEntry.src = s, HashEntry.packet_id = pid, timestamp = t'\<rparr>
          (tbl (hash_function s (ucast pid))) = None"
    from insert_entry_loop_None_key [OF _ _ n,
        of "\<lparr>HashEntry.src = s, HashEntry.packet_id = pid, timestamp = t\<rparr>"] Some
    show False by simp
  qed
  then obtain chain2 where
    "insert_entry_loop \<lparr>HashEntry.src = s, HashEntry.packet_id = pid, timestamp = t'\<rparr>
          (tbl (hash_function s (ucast pid))) = Some chain2" by auto
  with Some again ne ne' show ?thesis
    by (simp add: insert_entry_def Let_def)
qed

text \<open>The payload length of a frame of 0 to 13 bytes, read as a C int.\<close>

lemma sint_sub14:
  fixes len :: c_int
  assumes "0 \<le> sint len" and "sint len < 14"
  shows "sint (len - 14) = sint len - 14"
proof -
  have "sint (len - 14) = signed_take_bit 31 (sint len - sint (14 :: 32 word))"
    by (simp add: sint_word_ariths)
  also have "\<dots> = signed_take_bit 31 (sint len - 14)" by simp
  also have "\<dots> = sint len - 14"
    using assms by (intro signed_take_bit_int_eq_self) simp_all
  finally show ?thesis .
qed

section \<open>Lemmas on the receive callback\<close>

text \<open>On the empty table the callback leaves the table empty, whatever the frame.\<close>

lemma receive_init_table:
  "fst (my_fishnode_l3_receive e hash_table_init t1 t2 f len proto) = hash_table_init"
  by (simp add: my_fishnode_l3_receive_def Let_def get_timestamp_init)

lemma receive_all_init: "receive_all hash_table_init rs = hash_table_init"
  by (induction rs) (simp_all add: receive_init_table)

lemma forward_not_Nil: "my_fish_l3_forward e f len \<noteq> []"
  by (simp add: my_fish_l3_forward_def Let_def)

text \<open>
  The callback uses \<^verbatim>\<open>len\<close> for the length arguments of its calls and for nothing
  else.
\<close>

lemma forward_without_len:
  "map without_len (my_fish_l3_forward e f len) = map without_len (my_fish_l3_forward e f len')"
  by (simp add: my_fish_l3_forward_def Let_def)

lemma receive_without_len:
  "fst (my_fishnode_l3_receive e tbl t1 t2 f len proto) =
     fst (my_fishnode_l3_receive e tbl t1 t2 f len' proto)
   \<and> fst (snd (my_fishnode_l3_receive e tbl t1 t2 f len proto)) =
     fst (snd (my_fishnode_l3_receive e tbl t1 t2 f len' proto))
   \<and> map without_len (snd (snd (my_fishnode_l3_receive e tbl t1 t2 f len proto))) =
     map without_len (snd (snd (my_fishnode_l3_receive e tbl t1 t2 f len' proto)))"
  using forward_without_len [of e "f\<lparr>ttl := ttl f - 1\<rparr>" len len']
  by (simp add: my_fishnode_l3_receive_def Let_def)

text \<open>
  insert_entry is called on a hit of the lookup only, so no run from the initial table
  ever stores an entry, and every broadcast frame of every run is dropped.
\<close>

lemma broadcast_dropped_in_every_run:
  assumes "dst f = ALL_NEIGHBORS" and "node_addr e \<noteq> ALL_NEIGHBORS"
  shows "my_fishnode_l3_receive e (receive_all hash_table_init history) t1 t2 f len proto =
           (hash_table_init, f, [])"
  using assms
  by (simp add: receive_all_init my_fishnode_l3_receive_def Let_def get_timestamp_init)

text \<open>
  The broadcast branch is entered on a hit of the lookup: with a live entry in the table
  and a ttl above 1 the payload goes to layer 4 and the frame to my_fish_l3_forward.
\<close>

lemma receive_broadcast_on_hit:
  assumes "dst f = ALL_NEIGHBORS" and "node_addr e \<noteq> ALL_NEIGHBORS"
    and "get_timestamp tbl t1 (src f) (ucast (packet_id f)) \<noteq> -1" and "ttl f > 1"
  shows "snd (snd (my_fishnode_l3_receive e tbl t1 t2 f len proto)) =
           L4_receive (payload f) (len - 14) (protocol f) (src f)
             # my_fish_l3_forward e (f\<lparr>ttl := ttl f - 1\<rparr>) len"
  using assms by (simp add: my_fishnode_l3_receive_def Let_def sizeof_L3_hdr_eq)

section \<open>Broadcast frames\<close>

text \<open>
  C1. A broadcast frame whose (source, packet id) pair the node has never seen is to be
  passed to layer 4 once and flooded again with its ttl one lower when the ttl is above 1.
  The callback does neither: on the empty table, at the start of the node, a broadcast
  frame with ttl 5 from source 9 leaves the table empty and the buffer as it was, and no
  call to layer 4, to layer 2 or to the FCMP code is made.
\<close>

theorem fresh_broadcast_not_delivered:
  "my_fishnode_l3_receive \<lparr>node_addr = 5, longest_prefix_match = (\<lambda>a. 0)\<rparr>
      hash_table_init 1000 1000
      \<lparr>ttl = 5, protocol = 7, packet_id = 1, src = 9, dst = ALL_NEIGHBORS, payload = [1, 2]\<rparr>
      16 7 =
   (hash_table_init,
    \<lparr>ttl = 5, protocol = 7, packet_id = 1, src = 9, dst = ALL_NEIGHBORS, payload = [1, 2]\<rparr>,
    [])"
  by (simp add: my_fishnode_l3_receive_def Let_def get_timestamp_init ALL_NEIGHBORS_def)

text \<open>
  C2. In every run of the node from its initial state, a broadcast frame whose
  (source, packet id) pair arrived in a broadcast frame at most 120 seconds before is
  dropped: the callback makes no call to layer 4, to layer 2 or to the FCMP code, and
  leaves the table and the buffer as they were. The node's own address is taken not to
  be the broadcast address.
\<close>

theorem duplicate_broadcast_dropped:
  assumes "node_addr e \<noteq> ALL_NEIGHBORS"
    and "dst f = ALL_NEIGHBORS"
    and "r \<in> set history"
    and "dst (rx_frame r) = ALL_NEIGHBORS"
    and "src (rx_frame r) = src f"
    and "packet_id (rx_frame r) = packet_id f"
    and "rx_t_lookup r \<le> t_lookup"
    and "t_lookup - rx_t_lookup r \<le> ENTRY_TTL_SECONDS"
  shows "my_fishnode_l3_receive e (receive_all hash_table_init history)
           t_lookup t_insert f len proto =
         (receive_all hash_table_init history, f, [])"
  using assms(1,2)
  by (simp add: receive_all_init my_fishnode_l3_receive_def Let_def get_timestamp_init)

theorem duplicate_broadcast_dropped_witness:
  "my_fishnode_l3_receive \<lparr>node_addr = 5, longest_prefix_match = (\<lambda>a. 0)\<rparr>
     (receive_all hash_table_init
        [\<lparr>rx_env = \<lparr>node_addr = 5, longest_prefix_match = (\<lambda>a. 0)\<rparr>,
          rx_t_lookup = 1000, rx_t_insert = 1000,
          rx_frame = \<lparr>ttl = 5, protocol = 7, packet_id = 1, src = 9, dst = ALL_NEIGHBORS,
                       payload = [1, 2]\<rparr>,
          rx_len = 16, rx_protocol = 7\<rparr>])
     1010 1010
     \<lparr>ttl = 5, protocol = 7, packet_id = 1, src = 9, dst = ALL_NEIGHBORS, payload = [1, 2]\<rparr>
     16 7 =
   (receive_all hash_table_init
        [\<lparr>rx_env = \<lparr>node_addr = 5, longest_prefix_match = (\<lambda>a. 0)\<rparr>,
          rx_t_lookup = 1000, rx_t_insert = 1000,
          rx_frame = \<lparr>ttl = 5, protocol = 7, packet_id = 1, src = 9, dst = ALL_NEIGHBORS,
                       payload = [1, 2]\<rparr>,
          rx_len = 16, rx_protocol = 7\<rparr>],
    \<lparr>ttl = 5, protocol = 7, packet_id = 1, src = 9, dst = ALL_NEIGHBORS, payload = [1, 2]\<rparr>,
    [])"
  by (rule duplicate_broadcast_dropped
        [where r = "\<lparr>rx_env = \<lparr>node_addr = 5, longest_prefix_match = (\<lambda>a. 0)\<rparr>,
          rx_t_lookup = 1000, rx_t_insert = 1000,
          rx_frame = \<lparr>ttl = 5, protocol = 7, packet_id = 1, src = 9, dst = ALL_NEIGHBORS,
                       payload = [1, 2]\<rparr>,
          rx_len = 16, rx_protocol = 7\<rparr>"])
     (simp_all add: ALL_NEIGHBORS_def ENTRY_TTL_SECONDS_def)

section \<open>Unicast frames and forwarding\<close>

text \<open>
  C3. A unicast frame for another node that arrives with ttl 0 is to be answered with one
  TTL-exceeded FCMP response and not forwarded. The callback makes no call at all for it:
  with own address 5, a frame for node 7 from node 9 with ttl 0 produces neither a
  send_fcmp_response nor a call of my_fish_l3_forward, whose own branch for ttl 0 is
  therefore never reached from the receive path.
\<close>

theorem ttl_zero_unicast_no_response:
  "my_fishnode_l3_receive \<lparr>node_addr = 5, longest_prefix_match = (\<lambda>a. 6)\<rparr>
      hash_table_init 1000 1000
      \<lparr>ttl = 0, protocol = 7, packet_id = 1, src = 9, dst = 7, payload = [1, 2]\<rparr>
      16 7 =
   (hash_table_init,
    \<lparr>ttl = 0, protocol = 7, packet_id = 1, src = 9, dst = 7, payload = [1, 2]\<rparr>,
    [])"
  by (simp add: my_fishnode_l3_receive_def Let_def ALL_NEIGHBORS_def)

text \<open>
  C4, as stated, fails: a frame addressed to the node itself, for which the forwarding
  table has no entry, is handed to fish_l2_send with the node's own address as next hop,
  and a frame for another node with ttl 0 and no route is answered with error code 1,
  not with the no-route code 2.
\<close>

theorem no_route_counterexample:
  "longest_prefix_match \<lparr>node_addr = 5, longest_prefix_match = (\<lambda>a. 0)\<rparr> 5 = 0
   \<and> (5 :: fnaddr_t) \<noteq> ALL_NEIGHBORS
   \<and> my_fish_l3_forward \<lparr>node_addr = 5, longest_prefix_match = (\<lambda>a. 0)\<rparr>
        \<lparr>ttl = 3, protocol = 7, packet_id = 1, src = 5, dst = 5, payload = [1, 2]\<rparr> 16 =
      [L2_send \<lparr>ttl = 3, protocol = 7, packet_id = 1, src = 5, dst = 5, payload = [1, 2]\<rparr>
         5 16 1]
   \<and> my_fish_l3_forward \<lparr>node_addr = 5, longest_prefix_match = (\<lambda>a. 0)\<rparr>
        \<lparr>ttl = 0, protocol = 7, packet_id = 1, src = 9, dst = 7, payload = [1, 2]\<rparr> 16 =
      [Fcmp_response \<lparr>ttl = 0, protocol = 7, packet_id = 1, src = 9, dst = 7, payload = [1, 2]\<rparr>
         16 1]"
  by (simp add: my_fish_l3_forward_def Let_def ALL_NEIGHBORS_def)

text \<open>
  C4, amended. For every frame handed to my_fish_l3_forward whose destination is neither
  the node's own address nor the broadcast address and for which longest_prefix_match
  returns 0, fish_l2_send is not called and send_fcmp_response is called exactly once on
  the frame: with error code 2 when the ttl is not 0, with error code 1 when it is. On
  the receive path, where the ttl was above 1 before the decrement, the code is 2.
\<close>

theorem no_route_reported:
  assumes "dst f \<noteq> node_addr e"
    and "dst f \<noteq> ALL_NEIGHBORS"
    and "longest_prefix_match e (dst f) = 0"
  shows "my_fish_l3_forward e f len = [Fcmp_response f len (if ttl f = 0 then 1 else 2)]
     \<and> (1 < ttl f \<longrightarrow>
          snd (snd (my_fishnode_l3_receive e tbl t1 t2 f len proto)) =
            [Fcmp_response (f\<lparr>ttl := ttl f - 1\<rparr>) len 2])"
proof -
  have fwd: "my_fish_l3_forward e g len = [Fcmp_response g len (if ttl g = 0 then 1 else 2)]"
    if "dst g = dst f" for g
    using assms that by (simp add: my_fish_l3_forward_def Let_def)
  have "ttl f - 1 \<noteq> 0" if "1 < ttl f"
  proof
    assume "ttl f - 1 = 0"
    then have "ttl f = 1" by simp
    with that show False by simp
  qed
  then show ?thesis
    using assms fwd [of f] fwd [of "f\<lparr>ttl := ttl f - 1\<rparr>"]
    by (simp add: my_fishnode_l3_receive_def Let_def)
qed

theorem no_route_reported_witness:
  "my_fish_l3_forward \<lparr>node_addr = 5, longest_prefix_match = (\<lambda>a. 0)\<rparr>
      \<lparr>ttl = 3, protocol = 7, packet_id = 1, src = 9, dst = 7, payload = [1, 2]\<rparr> 16 =
     [Fcmp_response \<lparr>ttl = 3, protocol = 7, packet_id = 1, src = 9, dst = 7, payload = [1, 2]\<rparr>
        16 2]
   \<and> snd (snd (my_fishnode_l3_receive \<lparr>node_addr = 5, longest_prefix_match = (\<lambda>a. 0)\<rparr>
        hash_table_init 1000 1000
        \<lparr>ttl = 3, protocol = 7, packet_id = 1, src = 9, dst = 7, payload = [1, 2]\<rparr> 16 7)) =
     [Fcmp_response \<lparr>ttl = 2, protocol = 7, packet_id = 1, src = 9, dst = 7, payload = [1, 2]\<rparr>
        16 2]"
  using no_route_reported
    [of "\<lparr>ttl = 3, protocol = 7, packet_id = 1, src = 9, dst = 7, payload = [1, 2]\<rparr>"
        "\<lparr>node_addr = 5, longest_prefix_match = (\<lambda>a. 0)\<rparr>" 16 hash_table_init 1000 1000 7]
  by (simp add: ALL_NEIGHBORS_def)

text \<open>
  C7, as stated, fails: my_fish_l3_forward, given a frame addressed to the node itself,
  calls fish_l2_send. It is given such a frame when the node sends a packet to its own
  address through my_fish_l3_send.
\<close>

theorem self_destination_counterexample:
  "dst \<lparr>ttl = 9, protocol = 2, packet_id = 4, src = 3, dst = 3, payload = [8]\<rparr> =
     node_addr \<lparr>node_addr = 3, longest_prefix_match = (\<lambda>a. 4)\<rparr>
   \<and> my_fish_l3_forward \<lparr>node_addr = 3, longest_prefix_match = (\<lambda>a. 4)\<rparr>
        \<lparr>ttl = 9, protocol = 2, packet_id = 4, src = 3, dst = 3, payload = [8]\<rparr> 15 =
      [L2_send \<lparr>ttl = 9, protocol = 2, packet_id = 4, src = 3, dst = 3, payload = [8]\<rparr>
         3 15 1]
   \<and> my_fish_l3_send \<lparr>node_addr = 3, longest_prefix_match = (\<lambda>a. 4)\<rparr> 4 [8] 1 3 2 9 =
      [L2_send \<lparr>ttl = 9, protocol = 2, packet_id = 4, src = 3, dst = 3, payload = [8]\<rparr>
         3 15 1]"
  by (simp add: my_fish_l3_forward_def my_fish_l3_send_def Let_def ALL_NEIGHBORS_def
        MAX_TTL_def sizeof_L3_hdr_eq)

text \<open>
  C7, amended. The receive callback never hands a frame addressed to the node itself to
  forwarding: it passes the payload to layer 4 once and makes no other call.
  my_fish_l3_forward itself, given such a frame (as my_fish_l3_send does for a packet the
  node sends to its own address), sets the result of the table lookup aside and calls
  fish_l2_send exactly once with the node's own address as next hop; when that address is
  0 it calls send_fcmp_response with code 2 instead.
\<close>

theorem self_destination_forward:
  assumes "dst f = node_addr e"
  shows "my_fish_l3_forward e f len =
           (if node_addr e = 0 then [Fcmp_response f len 2]
            else [L2_send f (node_addr e) len 1])
     \<and> my_fishnode_l3_receive e tbl t1 t2 f len proto =
           (tbl, f, [L4_receive (payload f) (len - 14) (protocol f) (src f)])"
  using assms
  by (simp add: my_fish_l3_forward_def my_fishnode_l3_receive_def Let_def sizeof_L3_hdr_eq)

theorem self_destination_forward_witness:
  "my_fish_l3_forward \<lparr>node_addr = 3, longest_prefix_match = (\<lambda>a. 0)\<rparr>
      \<lparr>ttl = 0, protocol = 2, packet_id = 4, src = 8, dst = 3, payload = [8]\<rparr> 15 =
     [L2_send \<lparr>ttl = 0, protocol = 2, packet_id = 4, src = 8, dst = 3, payload = [8]\<rparr> 3 15 1]
   \<and> my_fishnode_l3_receive \<lparr>node_addr = 3, longest_prefix_match = (\<lambda>a. 0)\<rparr>
        hash_table_init 50 50
        \<lparr>ttl = 0, protocol = 2, packet_id = 4, src = 8, dst = 3, payload = [8]\<rparr> 15 2 =
     (hash_table_init,
      \<lparr>ttl = 0, protocol = 2, packet_id = 4, src = 8, dst = 3, payload = [8]\<rparr>,
      [L4_receive [8] 1 2 8])"
  using self_destination_forward
    [of "\<lparr>ttl = 0, protocol = 2, packet_id = 4, src = 8, dst = 3, payload = [8]\<rparr>"
        "\<lparr>node_addr = 3, longest_prefix_match = (\<lambda>a. 0)\<rparr>" 15 hash_table_init 50 50 2]
  by simp

section \<open>Frame length and frame contents\<close>

text \<open>
  C5, as stated, fails: the callback never compares \<^verbatim>\<open>len\<close> with the size of the
  header. A frame of length 5 whose destination member holds the node's own address is
  passed to layer 4, with the payload length \<open>5 - 14\<close>, that is \<open>-9\<close>.
\<close>

theorem short_frame_counterexample:
  "sint (5 :: c_int) < int sizeof_L3_hdr
   \<and> snd (snd (my_fishnode_l3_receive \<lparr>node_addr = 5, longest_prefix_match = (\<lambda>a. 0)\<rparr>
        hash_table_init 1000 1000
        \<lparr>ttl = 3, protocol = 7, packet_id = 1, src = 9, dst = 5, payload = [1, 2]\<rparr> 5 7)) =
      [L4_receive [1, 2] (- 9) 7 9]"
  by (simp add: my_fishnode_l3_receive_def Let_def sizeof_L3_hdr_eq)

text \<open>
  C5, amended. A frame shorter than the header is not dropped on account of its length.
  The callback never inspects \<^verbatim>\<open>len\<close>: for a short frame it leaves the same table
  and the same buffer and makes the same calls, in the same order, as for a frame of any
  other length with the same header members and payload bytes; only the length arguments
  of the calls differ. In particular a short frame whose destination member is the node's
  own address is passed to layer 4 exactly once, with the payload length \<open>len - 14\<close>
  computed modulo \<open>2 ^ 32\<close>, and no other call is made for it; for every \<open>len\<close> from
  0 to 13 that length, read as a C int, is \<open>len - 14\<close> and negative.
\<close>

theorem short_frame_not_checked:
  assumes "sint len < int sizeof_L3_hdr"
  shows "fst (my_fishnode_l3_receive e tbl t1 t2 f len proto) =
           fst (my_fishnode_l3_receive e tbl t1 t2 f len' proto)
     \<and> fst (snd (my_fishnode_l3_receive e tbl t1 t2 f len proto)) =
           fst (snd (my_fishnode_l3_receive e tbl t1 t2 f len' proto))
     \<and> map without_len (snd (snd (my_fishnode_l3_receive e tbl t1 t2 f len proto))) =
           map without_len (snd (snd (my_fishnode_l3_receive e tbl t1 t2 f len' proto)))
     \<and> (dst f = node_addr e \<longrightarrow>
          my_fishnode_l3_receive e tbl t1 t2 f len proto =
            (tbl, f, [L4_receive (payload f) (len - 14) (protocol f) (src f)]))
     \<and> (0 \<le> sint len \<longrightarrow> sint (len - 14) = sint len - 14 \<and> sint (len - 14) < 0)"
proof -
  have self: "dst f = node_addr e \<longrightarrow>
          my_fishnode_l3_receive e tbl t1 t2 f len proto =
            (tbl, f, [L4_receive (payload f) (len - 14) (protocol f) (src f)])"
    by (simp add: my_fishnode_l3_receive_def Let_def sizeof_L3_hdr_eq)
  have neg: "0 \<le> sint len \<longrightarrow> sint (len - 14) = sint len - 14 \<and> sint (len - 14) < 0"
  proof
    assume nonneg: "0 \<le> sint len"
    from assms have short: "sint len < 14" by (simp add: sizeof_L3_hdr_eq)
    from sint_sub14 [OF nonneg short] short
    show "sint (len - 14) = sint len - 14 \<and> sint (len - 14) < 0" by simp
  qed
  from receive_without_len [of e tbl t1 t2 f len proto len'] self neg
  show ?thesis by (intro conjI) (elim conjE, assumption)+
qed

theorem short_frame_not_checked_witness:
  "sint (9 :: c_int) < int sizeof_L3_hdr
   \<and> map without_len (snd (snd (my_fishnode_l3_receive
        \<lparr>node_addr = 5, longest_prefix_match = (\<lambda>a. 6)\<rparr> hash_table_init 1000 1000
        \<lparr>ttl = 3, protocol = 7, packet_id = 1, src = 9, dst = 7, payload = []\<rparr> 9 7))) =
      [L2_send \<lparr>ttl = 2, protocol = 7, packet_id = 1, src = 9, dst = 7, payload = []\<rparr> 6 0 1]
   \<and> my_fishnode_l3_receive \<lparr>node_addr = 7, longest_prefix_match = (\<lambda>a. 6)\<rparr>
        hash_table_init 1000 1000
        \<lparr>ttl = 3, protocol = 7, packet_id = 1, src = 9, dst = 7, payload = []\<rparr> 9 7 =
      (hash_table_init,
       \<lparr>ttl = 3, protocol = 7, packet_id = 1, src = 9, dst = 7, payload = []\<rparr>,
       [L4_receive [] (9 - 14) 7 9])
   \<and> sint (9 - 14 :: c_int) = - 5"
proof -
  have h: "sint (9 :: c_int) < int sizeof_L3_hdr"
    by (simp add: sizeof_L3_hdr_eq)
  note other = short_frame_not_checked [OF h,
      where e = "\<lparr>node_addr = 5, longest_prefix_match = (\<lambda>a. 6)\<rparr>" and tbl = hash_table_init
        and ?t1.0 = 1000 and ?t2.0 = 1000
        and f = "\<lparr>ttl = 3, protocol = 7, packet_id = 1, src = 9, dst = 7, payload = []\<rparr>"
        and proto = 7 and len' = 20]
  note self = short_frame_not_checked [OF h,
      where e = "\<lparr>node_addr = 7, longest_prefix_match = (\<lambda>a. 6)\<rparr>" and tbl = hash_table_init
        and ?t1.0 = 1000 and ?t2.0 = 1000
        and f = "\<lparr>ttl = 3, protocol = 7, packet_id = 1, src = 9, dst = 7, payload = []\<rparr>"
        and proto = 7 and len' = 20]
  from other have "map without_len (snd (snd (my_fishnode_l3_receive
        \<lparr>node_addr = 5, longest_prefix_match = (\<lambda>a. 6)\<rparr> hash_table_init 1000 1000
        \<lparr>ttl = 3, protocol = 7, packet_id = 1, src = 9, dst = 7, payload = []\<rparr> 9 7))) =
      map without_len (snd (snd (my_fishnode_l3_receive
        \<lparr>node_addr = 5, longest_prefix_match = (\<lambda>a. 6)\<rparr> hash_table_init 1000 1000
        \<lparr>ttl = 3, protocol = 7, packet_id = 1, src = 9, dst = 7, payload = []\<rparr> 20 7)))"
    by (rule conjunct2 [THEN conjunct2, THEN conjunct1])
  also have "\<dots> =
      [L2_send \<lparr>ttl = 2, protocol = 7, packet_id = 1, src = 9, dst = 7, payload = []\<rparr> 6 0 1]"
    by (simp add: my_fishnode_l3_receive_def my_fish_l3_forward_def Let_def ALL_NEIGHBORS_def)
  finally have a: "map without_len (snd (snd (my_fishnode_l3_receive
        \<lparr>node_addr = 5, longest_prefix_match = (\<lambda>a. 6)\<rparr> hash_table_init 1000 1000
        \<lparr>ttl = 3, protocol = 7, packet_id = 1, src = 9, dst = 7, payload = []\<rparr> 9 7))) =
      [L2_send \<lparr>ttl = 2, protocol = 7, packet_id = 1, src = 9, dst = 7, payload = []\<rparr> 6 0 1]" .
  from self have b: "my_fishnode_l3_receive \<lparr>node_addr = 7, longest_prefix_match = (\<lambda>a. 6)\<rparr>
        hash_table_init 1000 1000
        \<lparr>ttl = 3, protocol = 7, packet_id = 1, src = 9, dst = 7, payload = []\<rparr> 9 7 =
      (hash_table_init,
       \<lparr>ttl = 3, protocol = 7, packet_id = 1, src = 9, dst = 7, payload = []\<rparr>,
       [L4_receive [] (9 - 14) 7 9])"
    by simp
  from self have c: "sint (9 - 14 :: c_int) = - 5"
    by simp
  from h a b c show ?thesis by (intro conjI)
qed

text \<open>
  C8. When the receive callback returns, the buffer differs from the buffer it was given
  in the ttl member at most: protocol, packet id, source, destination and every byte of
  the payload are as they were. my_fish_l3_forward writes nothing to the buffer.
\<close>

theorem receive_changes_only_ttl:
  "fst (snd (my_fishnode_l3_receive e tbl t1 t2 f len proto)) =
     f\<lparr>ttl := ttl (fst (snd (my_fishnode_l3_receive e tbl t1 t2 f len proto)))\<rparr>"
  by (simp add: my_fishnode_l3_receive_def Let_def)

text \<open>
  C9, as stated, fails: the header does not occupy 10 bytes.
\<close>

theorem header_size_counterexample: "sizeof_L3_hdr \<noteq> 10"
  by (simp add: sizeof_L3_hdr_eq)

text \<open>
  C9, amended. The header occupies exactly 14 bytes before the payload: ttl (1 byte),
  protocol (1 byte), packet id (4 bytes), source (4 bytes), destination (4 bytes), in
  that order, at the offsets 0, 1, 2, 6 and 10.
\<close>

theorem header_layout:
  "sizeof_L3_hdr = 14
   \<and> map (\<lambda>(n, t). (n, sizeof_ctype t)) L3_hdr_members =
       [(''ttl'', 1), (''protocol'', 1), (''packet_id'', 4), (''src'', 4), (''dst'', 4)]
   \<and> map (offsetof_packed L3_hdr_members) [''ttl'', ''protocol'', ''packet_id'', ''src'', ''dst''] =
       [Some 0, Some 1, Some 2, Some 6, Some 10]"
  by (simp add: sizeof_L3_hdr_eq L3_hdr_members_def)

section \<open>Expiry and keys of the hash table\<close>

text \<open>
  C6, as stated, fails: an entry inserted at time 1000 and looked up at time 1120, when
  it is exactly 120 seconds old, is found.
\<close>

theorem expiry_boundary_counterexample:
  "(1120 :: time_t) - 1000 = ENTRY_TTL_SECONDS
   \<and> get_timestamp (insert_entry hash_table_init 1000 9 1) 1120 9 1 \<noteq> - 1"
  by (simp add: get_timestamp_insert_entry ENTRY_TTL_SECONDS_def)

text \<open>
  C6, amended. An entry exactly 120 seconds old is still present: the lookup of a pair
  inserted at time \<open>t\<close> returns \<open>t\<close> as long as \<open>now - t\<close> is at most 120, and
  \<open>-1\<close>, as for a pair that was never inserted, once \<open>now - t\<close> is above 120.
\<close>

theorem expiry_boundary:
  "get_timestamp (insert_entry tbl t s pid) (t + ENTRY_TTL_SECONDS) s pid = t
   \<and> get_timestamp (insert_entry tbl t s pid) now s pid =
       (if now - t > ENTRY_TTL_SECONDS then - 1 else t)"
  by (simp add: get_timestamp_insert_entry)

text \<open>
  C10. The table identifies a packet by its source and the low 16 bits of its packet id.
  For two 32-bit packet ids that are congruent modulo \<open>2 ^ 16\<close>, passed as the code
  passes \<^verbatim>\<open>header->packet_id\<close> to the \<^verbatim>\<open>uint16_t\<close> parameter: inserting the one is
  inserting the other, looking up the one is looking up the other, a lookup of the one
  after an insertion of the other finds that entry, the receive callback leaves the
  same table for two frames that differ in the packet id only, and inserting the one and
  then the other leaves the table that inserting the second alone leaves: the loop of
  insert_entry finds the entry of the first and replaces it, so the two pairs share one
  entry.
\<close>

theorem packet_id_low16:
  fixes p1 p2 :: "32 word"
  assumes "unat p1 mod 2 ^ 16 = unat p2 mod 2 ^ 16"
  shows "insert_entry tbl t s (ucast p1) = insert_entry tbl t s (ucast p2)
     \<and> get_timestamp tbl now s (ucast p1) = get_timestamp tbl now s (ucast p2)
     \<and> get_timestamp (insert_entry tbl t s (ucast p1)) now s (ucast p2) =
         (if now - t > ENTRY_TTL_SECONDS then - 1 else t)
     \<and> fst (my_fishnode_l3_receive e tbl t1 t2 (f\<lparr>packet_id := p1\<rparr>) len proto) =
         fst (my_fishnode_l3_receive e tbl t1 t2 (f\<lparr>packet_id := p2\<rparr>) len proto)
     \<and> insert_entry (insert_entry tbl t s (ucast p1)) t' s (ucast p2) =
         insert_entry tbl t' s (ucast p2)"
proof -
  have eq: "(ucast p1 :: 16 word) = ucast p2"
    using assms by (rule ucast_low16)
  show ?thesis
    by (simp add: eq get_timestamp_insert_entry insert_entry_twice my_fishnode_l3_receive_def
          Let_def)
qed

theorem packet_id_low16_witness:
  "unat (65539 :: 32 word) mod 2 ^ 16 = unat (3 :: 32 word) mod 2 ^ 16
   \<and> insert_entry hash_table_init 1000 9 (ucast (65539 :: 32 word)) =
       insert_entry hash_table_init 1000 9 (ucast (3 :: 32 word))
   \<and> get_timestamp (insert_entry hash_table_init 1000 9 (ucast (65539 :: 32 word)))
        1050 9 (ucast (3 :: 32 word)) = 1000
   \<and> insert_entry (insert_entry hash_table_init 1000 9 (ucast (65539 :: 32 word)))
        1050 9 (ucast (3 :: 32 word)) (hash_function 9 3) =
       [\<lparr>HashEntry.src = 9, HashEntry.packet_id = 3, timestamp = 1050\<rparr>]"
proof -
  have h: "unat (65539 :: 32 word) mod 2 ^ 16 = unat (3 :: 32 word) mod 2 ^ 16"
    by simp
  note w = packet_id_low16 [OF h,
      where tbl = hash_table_init and t = 1000 and s = 9 and now = 1050 and t' = 1050
        and e = "\<lparr>node_addr = 5, longest_prefix_match = (\<lambda>a. 0)\<rparr>" and ?t1.0 = 0 and ?t2.0 = 0
        and f = "\<lparr>ttl = 3, protocol = 7, packet_id = 1, src = 9, dst = 7, payload = []\<rparr>"
        and len = 14 and proto = 7]
  from w have a: "insert_entry hash_table_init 1000 9 (ucast (65539 :: 32 word)) =
       insert_entry hash_table_init 1000 9 (ucast (3 :: 32 word))"
    by (rule conjunct1)
  from w have "get_timestamp (insert_entry hash_table_init 1000 9 (ucast (65539 :: 32 word)))
        1050 9 (ucast (3 :: 32 word)) = (if 1050 - 1000 > ENTRY_TTL_SECONDS then - 1 else 1000)"
    by (rule conjunct2 [THEN conjunct2, THEN conjunct1])
  also have "\<dots> = 1000"
    by (simp add: ENTRY_TTL_SECONDS_def)
  finally have b: "get_timestamp (insert_entry hash_table_init 1000 9 (ucast (65539 :: 32 word)))
        1050 9 (ucast (3 :: 32 word)) = 1000" .
  from w have d: "insert_entry (insert_entry hash_table_init 1000 9 (ucast (65539 :: 32 word)))
        1050 9 (ucast (3 :: 32 word)) = insert_entry hash_table_init 1050 9 (ucast (3 :: 32 word))"
    by (rule conjunct2 [THEN conjunct2, THEN conjunct2, THEN conjunct2])
  have "insert_entry hash_table_init 1050 9 (ucast (3 :: 32 word)) (hash_function 9 3) =
       [\<lparr>HashEntry.src = 9, HashEntry.packet_id = 3, timestamp = 1050\<rparr>]"
    by (simp add: insert_entry_def hash_table_init_def Let_def)
  with d have c: "insert_entry (insert_entry hash_table_init 1000 9 (ucast (65539 :: 32 word)))
        1050 9 (ucast (3 :: 32 word)) (hash_function 9 3) =
       [\<lparr>HashEntry.src = 9, HashEntry.packet_id = 3, timestamp = 1050\<rparr>]"
    by (simp only:)
  from h a b c show ?thesis by (intro conjI)
qed

end
